theory Spec2Isabelle
  imports Main
begin

section \<open>Python values, errors and strings\<close>

text \<open>
  The conversation context stores dictionaries of type \<open>dict[str, Any]\<close>, and the agent
  returns a response whose shape the chat service inspects at run time. Both are values of
  the small universe \<open>pyval\<close>. A dictionary is an association list with string keys in
  insertion order (lookup with \<open>map_of\<close>); \<open>PObj\<close> is an object that carries data
  attributes only (such as a message object with a \<open>content\<close> attribute).
  A string is a list of code points below 256.
\<close>

datatype pyval =
    PNone
  | PBool bool
  | PInt int
  | PStr string
  | PList "pyval list"
  | PDict "(string \<times> pyval) list"
  | PObj "(string \<times> pyval) list"

text \<open>
  The exceptions the modelled code can raise. \<open>Exception\<close> is the plain
  \<open>Exception(...)\<close> that \<open>start_model\<close> and \<open>_chat_with_agent\<close> raise when they
  wrap another error; of the others only \<open>ValueError\<close> is caught by
  \<open>except ValueError\<close>.
\<close>

datatype error =
    ValueError
  | TypeError
  | KeyError
  | AttributeError
  | IndexError
  | UnboundLocalError
  | Exception

type_synonym 'a result = "error + 'a"

text \<open>\<open>str.isspace\<close> on the code points below 256, and \<open>str.strip()\<close>.\<close>

definition py_isspace :: "char \<Rightarrow> bool" where
  "py_isspace c \<longleftrightarrow>
     c \<in> set [CHR 0x09, CHR 0x0A, CHR 0x0B, CHR 0x0C, CHR 0x0D,
               CHR 0x1C, CHR 0x1D, CHR 0x1E, CHR 0x1F, CHR 0x20, CHR 0x85, CHR 0xA0]"

definition py_strip :: "string \<Rightarrow> string" where
  "py_strip s = rev (dropWhile py_isspace (rev (dropWhile py_isspace s)))"

text \<open>\<open>sep.join(xs)\<close> on a list of strings.\<close>

fun join :: "string \<Rightarrow> string list \<Rightarrow> string" where
  "join sep [] = []"
| "join sep [x] = x"
| "join sep (x # y # ys) = x @ sep @ join sep (y # ys)"

text \<open>
  \<open>sep.join(xs)\<close> on a list of arbitrary values: a \<open>TypeError\<close> as soon as one item is
  not a string.
\<close>

fun strings_of :: "pyval list \<Rightarrow> string list option" where
  "strings_of [] = Some []"
| "strings_of (PStr s # vs) = map_option ((#) s) (strings_of vs)"
| "strings_of (_ # vs) = None"

definition py_join :: "string \<Rightarrow> pyval list \<Rightarrow> string result" where
  "py_join sep vs = (case strings_of vs of None \<Rightarrow> Inl TypeError | Some ss \<Rightarrow> Inr (join sep ss))"

text \<open>Truth value of a value, as \<open>if v:\<close> and \<open>not v\<close> test it.\<close>

fun truthy :: "pyval \<Rightarrow> bool" where
  "truthy PNone = False"
| "truthy (PBool b) = b"
| "truthy (PInt i) = (i \<noteq> 0)"
| "truthy (PStr s) = (s \<noteq> [])"
| "truthy (PList vs) = (vs \<noteq> [])"
| "truthy (PDict kvs) = (kvs \<noteq> [])"
| "truthy (PObj attrs) = True"

text \<open>
  \<open>str(v)\<close>: a string is its own string form; the displayable form of every other value
  is a parameter \<open>repr\<close> of the development.
\<close>

definition py_str :: "(pyval \<Rightarrow> string) \<Rightarrow> pyval \<Rightarrow> string" where
  "py_str repr v = (case v of PStr s \<Rightarrow> s | _ \<Rightarrow> repr v)"

text \<open>
  The slice \<open>xs[start:]\<close>: a negative start counts from the end and is clamped at the
  front, a start past the end gives the empty list. Since \<open>-0 = 0\<close>, the slice
  \<open>xs[-0:]\<close> is the whole list.
\<close>

definition slice_from :: "int \<Rightarrow> 'a list \<Rightarrow> 'a list" where
  "slice_from start xs =
     (let n = int (length xs);
          s = (if start < 0 then max (start + n) 0 else min start n)
      in drop (nat s) xs)"

text \<open>\<open>str.capitalize()\<close> on ASCII letters: first character upper case, the rest lower case.\<close>

definition upper_char :: "char \<Rightarrow> char" where
  "upper_char c = (let n = (of_char c :: nat) in if 97 \<le> n \<and> n \<le> 122 then char_of (n - 32) else c)"

definition lower_char :: "char \<Rightarrow> char" where
  "lower_char c = (let n = (of_char c :: nat) in if 65 \<le> n \<and> n \<le> 90 then char_of (n + 32) else c)"

fun capitalize :: "string \<Rightarrow> string" where
  "capitalize [] = []"
| "capitalize (c # cs) = upper_char c # map lower_char cs"

section \<open>ConversationContext\<close>

text \<open>A message is the dictionary \<open>{"role": role, "content": content}\<close>.\<close>

record message =
  role :: string
  content :: pyval

text \<open>
  The fields \<open>__init__\<close> sets. \<open>movies\<close> maps a movie id to its metadata dictionary, in
  insertion order; each entry of \<open>chromadb_results\<close> is a dictionary with the keys
  \<open>query\<close> and \<open>result\<close>.
\<close>

record conversation_context =
  max_history :: int
  messages :: "message list"
  movies :: "(string \<times> (string \<times> pyval) list) list"
  chromadb_results :: "(string \<times> string) list list"

definition init :: "int \<Rightarrow> conversation_context" where
  "init mh = \<lparr>max_history = mh, messages = [], movies = [], chromadb_results = []\<rparr>"

text \<open>
  A method that can raise returns its outcome together with the context as the call left
  it, so that what an exception leaves behind is part of the model.
\<close>

definition add_message :: "string \<Rightarrow> pyval \<Rightarrow> conversation_context \<Rightarrow> unit result \<times> conversation_context" where
  "add_message r c ctx =
     (if r \<notin> {''user'', ''assistant'', ''system''} then (Inl ValueError, ctx)
      else
        let ms = messages ctx @ [\<lparr>role = r, content = c\<rparr>];
            ms' = (if int (length ms) > max_history ctx
                   then slice_from (- max_history ctx) ms else ms)
        in (Inr (), ctx\<lparr>messages := ms'\<rparr>))"

definition add_user_message :: "pyval \<Rightarrow> conversation_context \<Rightarrow> unit result \<times> conversation_context" where
  "add_user_message c ctx = add_message ''user'' c ctx"

definition add_assistant_message :: "pyval \<Rightarrow> conversation_context \<Rightarrow> unit result \<times> conversation_context" where
  "add_assistant_message c ctx = add_message ''assistant'' c ctx"

definition add_system_message :: "pyval \<Rightarrow> conversation_context \<Rightarrow> unit result \<times> conversation_context" where
  "add_system_message c ctx = add_message ''system'' c ctx"

text \<open>
  \<open>get_recent(n)\<close>; \<open>None\<close> is the absent argument. The method returns a new list
  and assigns no field, so the context it leaves is the one it was called on.
\<close>

definition get_recent ::
  "int option \<Rightarrow> conversation_context \<Rightarrow> message list \<times> conversation_context" where
  "get_recent n ctx =
     ((case n of
         None \<Rightarrow> messages ctx
       | Some k \<Rightarrow> if k \<ge> int (length (messages ctx)) then messages ctx
                   else slice_from (- k) (messages ctx)),
      ctx)"

text \<open>\<open>build_context_history(max_messages)\<close>: one line \<open>Role: content\<close> per message.\<close>

definition build_context_history :: "(pyval \<Rightarrow> string) \<Rightarrow> int option \<Rightarrow> conversation_context \<Rightarrow> string" where
  "build_context_history repr max_messages ctx =
     join [CHR 0x0A]
       (map (\<lambda>m. capitalize (role m) @ '': '' @ py_str repr (content m))
            (fst (get_recent max_messages ctx)))"

text \<open>\<open>d.get(k, default)\<close> on a dictionary.\<close>

definition dict_get :: "(string \<times> pyval) list \<Rightarrow> string \<Rightarrow> pyval \<Rightarrow> pyval" where
  "dict_get d k dflt = (case map_of d k of None \<Rightarrow> dflt | Some v \<Rightarrow> v)"

text \<open>
  What \<open>list.extend(v)\<close> iterates over: the items of a list, the characters of a string,
  the keys of a dictionary; any other value is not iterable.
\<close>

fun py_iter :: "pyval \<Rightarrow> pyval list result" where
  "py_iter (PList vs) = Inr vs"
| "py_iter (PStr s) = Inr (map (\<lambda>c. PStr [c]) s)"
| "py_iter (PDict kvs) = Inr (map (\<lambda>kv. PStr (fst kv)) kvs)"
| "py_iter _ = Inl TypeError"

text \<open>
  The loop \<open>for meta in self.movies.values(): fav_list.extend(meta.get("favorite_movies", []))\<close>,
  with \<open>fav_list\<close> as accumulator.
\<close>

fun extend_all :: "pyval list \<Rightarrow> (string \<times> pyval) list list \<Rightarrow> pyval list result" where
  "extend_all fav_list [] = Inr fav_list"
| "extend_all fav_list (meta # metas) =
     (case py_iter (dict_get meta ''favorite_movies'' (PList [])) of
        Inl e \<Rightarrow> Inl e
      | Inr vs \<Rightarrow> extend_all (fav_list @ vs) metas)"

definition get_favorite_movies :: "conversation_context \<Rightarrow> string result" where
  "get_favorite_movies ctx =
     (let metas = map snd (movies ctx);
          favorites = filter (\<lambda>meta. dict_get meta ''favorite'' PNone = PBool True) metas
      in if favorites = [] then
           (case extend_all [] metas of
              Inl e \<Rightarrow> Inl e
            | Inr fav_list \<Rightarrow>
                if fav_list \<noteq> [] then py_join '', '' fav_list
                else Inr ''No favorite movies stored.'')
         else
           (case py_join '', ''
                   (map (\<lambda>m. dict_get m ''title'' (PStr []))
                        (filter (\<lambda>m. truthy (dict_get m ''title'' PNone)) favorites)) of
              Inl e \<Rightarrow> Inl e
            | Inr s \<Rightarrow> Inr (if s \<noteq> [] then s else ''No favorite movies stored.'')))"

section \<open>ChatService\<close>

text \<open>
  The collaborators of the chat service: \<open>search_movies(query, top_k)\<close>, which returns the
  ranked movies or raises; \<open>start_model()\<close>, which raises or returns the agent, the agent
  being what its \<open>invoke\<close> answers to a formatted prompt (a response or an exception);
  and the displayable form of values.
\<close>

record collaborators =
  search_movies :: "string \<Rightarrow> nat \<Rightarrow> pyval result"
  start_model :: "(string \<Rightarrow> pyval result) result"
  repr :: "pyval \<Rightarrow> string"

record prompt_vars =
  conversation_history :: string
  favorite_movies :: string
  movies_list :: pyval
  user_message :: string

definition fallback_reply :: string where
  "fallback_reply = ''Sorry, I am unable to generate a reply at the moment. Please try again later.''"

definition chromadb_unavailable :: string where
  "chromadb_unavailable = ''Sorry, ChromaDB search is currently unavailable.''"

text \<open>\<open>_build_prompt_vars\<close>: the dictionary's values are evaluated in the order written.\<close>

definition build_prompt_vars ::
  "collaborators \<Rightarrow> conversation_context \<Rightarrow> string \<Rightarrow> pyval \<Rightarrow> prompt_vars result" where
  "build_prompt_vars cs ctx msg reply =
     (let history = build_context_history (repr cs) None ctx
      in case get_favorite_movies ctx of
           Inl e \<Rightarrow> Inl e
         | Inr favs \<Rightarrow>
             Inr \<lparr>conversation_history = history, favorite_movies = favs,
                  movies_list = reply, user_message = msg\<rparr>)"

text \<open>\<open>chat_prompt.format(**prompt_vars)\<close>.\<close>

definition chat_prompt_format :: "(pyval \<Rightarrow> string) \<Rightarrow> prompt_vars \<Rightarrow> string" where
  "chat_prompt_format rp pv =
     ''Previous conversation:'' @ [CHR 0x0A] @ conversation_history pv @ [CHR 0x0A, CHR 0x0A]
     @ ''User'' @ [CHR 0x27] @ ''s favorite movies:'' @ [CHR 0x0A] @ favorite_movies pv
     @ [CHR 0x0A, CHR 0x0A]
     @ ''User request:'' @ [CHR 0x0A] @ user_message pv @ [CHR 0x0A]
     @ ''Movies to suggest:'' @ [CHR 0x0A] @ py_str rp (movies_list pv) @ [CHR 0x0A, CHR 0x0A]"

text \<open>\<open>messages[-1]\<close> on a value that passed \<open>if messages:\<close>.\<close>

fun py_last :: "pyval \<Rightarrow> pyval result" where
  "py_last (PList vs) = (if vs = [] then Inl IndexError else Inr (last vs))"
| "py_last (PStr s) = (if s = [] then Inl IndexError else Inr (PStr [last s]))"
| "py_last (PDict kvs) = Inl KeyError"
| "py_last _ = Inl TypeError"

text \<open>
  The content of the last message: \<open>last_msg_obj.get("content", str(last_msg_obj))\<close> for a
  dictionary, \<open>getattr(last_msg_obj, "content", str(last_msg_obj))\<close> otherwise. Of the
  values here only an object can have a \<open>content\<close> attribute.
\<close>

fun message_content :: "(pyval \<Rightarrow> string) \<Rightarrow> pyval \<Rightarrow> pyval" where
  "message_content rp (PDict d) = dict_get d ''content'' (PStr (py_str rp (PDict d)))"
| "message_content rp (PObj attrs) = dict_get attrs ''content'' (PStr (py_str rp (PObj attrs)))"
| "message_content rp v = PStr (py_str rp v)"

text \<open>
  \<open>last_msg.strip()\<close> on the values of \<open>pyval\<close>: of these only a string has the
  method (the universe has no \<open>bytes\<close>), and an object's attribute of that name would be
  data, which cannot be called. None, numbers, lists and dictionaries raise
  \<open>AttributeError\<close>.
\<close>

fun call_strip :: "pyval \<Rightarrow> string result" where
  "call_strip (PStr s) = Inr (py_strip s)"
| "call_strip (PObj attrs) =
     (if map_of attrs ''strip'' = None then Inl AttributeError else Inl TypeError)"
| "call_strip v = Inl AttributeError"

text \<open>The body of \<open>_chat_with_agent\<close> from \<open>last_msg = None\<close> on, given the response.\<close>

definition extract_reply :: "(pyval \<Rightarrow> string) \<Rightarrow> pyval \<Rightarrow> string result" where
  "extract_reply rp response =
     (case response of
        PDict d \<Rightarrow>
          (case map_of d ''messages'' of
             Some msgs \<Rightarrow>
               (case (if truthy msgs
                      then (case py_last msgs of
                              Inl e \<Rightarrow> Inl e
                            | Inr last_msg_obj \<Rightarrow> Inr (message_content rp last_msg_obj))
                      else Inr PNone) of
                  Inl e \<Rightarrow> Inl e
                | Inr last_msg \<Rightarrow>
                    call_strip (if last_msg = PNone then PStr (py_str rp response) else last_msg))
           | None \<Rightarrow> Inr (py_str rp response))
      | PStr s \<Rightarrow> Inr (py_strip s)
      | _ \<Rightarrow> Inr (py_str rp response))"

text \<open>
  \<open>_chat_with_agent\<close>: a \<open>ValueError\<close> from the body is raised again as a
  \<open>ValueError\<close>, every other exception as a plain \<open>Exception\<close>.
\<close>

definition chat_with_agent :: "collaborators \<Rightarrow> prompt_vars \<Rightarrow> string result" where
  "chat_with_agent cs pv =
     (case (case start_model cs of
              Inl e \<Rightarrow> Inl e
            | Inr agent \<Rightarrow>
                (case agent (chat_prompt_format (repr cs) pv) of
                   Inl e \<Rightarrow> Inl e
                 | Inr response \<Rightarrow> extract_reply (repr cs) response)) of
        Inl e \<Rightarrow> (if e = ValueError then Inl ValueError else Inl Exception)
      | Inr reply \<Rightarrow> Inr reply)"

text \<open>
  The body of the second \<open>try\<close> of \<open>generate_reply\<close>. The local \<open>llama_reply\<close> is
  bound only when \<open>search_movies\<close> returned (\<open>None\<close> here is the unbound local, whose
  read raises \<open>UnboundLocalError\<close> before \<open>_build_prompt_vars\<close> is called).
\<close>

definition agent_stage ::
  "collaborators \<Rightarrow> conversation_context \<Rightarrow> string \<Rightarrow> pyval option \<Rightarrow> string result" where
  "agent_stage cs ctx msg llama_reply =
     (case llama_reply of
        None \<Rightarrow> Inl UnboundLocalError
      | Some l \<Rightarrow>
          (case build_prompt_vars cs ctx msg l of
             Inl e \<Rightarrow> Inl e
           | Inr pv \<Rightarrow> chat_with_agent cs pv))"

text \<open>
  \<open>generate_reply(user_message, chromadb_test)\<close>. The argument is any value, since the
  method tests \<open>isinstance(user_message, str)\<close> itself. In the agent branch the first
  \<open>except\<close> assigns the fallback to \<open>reply\<close>, and the second \<open>try\<close> assigns
  \<open>reply\<close> again on both of its paths.
\<close>

definition generate_reply ::
  "collaborators \<Rightarrow> pyval \<Rightarrow> bool \<Rightarrow> conversation_context \<Rightarrow> pyval result \<times> conversation_context" where
  "generate_reply cs um chromadb_test ctx =
     (case um of
        PStr msg \<Rightarrow>
          if py_strip msg = [] then (Inl ValueError, ctx)
          else
            (case add_user_message (PStr msg) ctx of
               (Inl e, ctx1) \<Rightarrow> (Inl e, ctx1)
             | (Inr _, ctx1) \<Rightarrow>
                 let reply =
                   (if chromadb_test then
                      (case search_movies cs msg 5 of
                         Inl e \<Rightarrow> PStr chromadb_unavailable
                       | Inr found \<Rightarrow> found)
                    else
                      let llama_reply =
                            (case search_movies cs msg 5 of Inl e \<Rightarrow> None | Inr found \<Rightarrow> Some found)
                      in (case agent_stage cs ctx1 msg llama_reply of
                            Inl e \<Rightarrow> PStr fallback_reply
                          | Inr text \<Rightarrow> PStr text))
                 in (case add_assistant_message reply ctx1 of
                       (Inl e, ctx2) \<Rightarrow> (Inl e, ctx2)
                     | (Inr _, ctx2) \<Rightarrow> (Inr reply, ctx2)))
      | _ \<Rightarrow> (Inl ValueError, ctx))"

section \<open>Favourites tools\<close>

text \<open>
  The favourites file: absent, present with text that \<open>json.load\<close> rejects, or present
  with a JSON array of movie ids (what \<open>save_favourites\<close> writes).
\<close>

datatype fav_file = Absent | Unparsable | Ids "int list"

text \<open>
  What the tools depend on: \<open>search_movie_id\<close> (the id of the first match, or
  \<open>None\<close>), whether the file can be opened for writing, and the texts of the
  exceptions that \<open>json.load\<close> and \<open>open\<close> raise.
\<close>

record tool_env =
  search_movie_id :: "string \<Rightarrow> int option"
  writable :: bool
  json_error :: string
  write_error :: string

text \<open>\<open>str(i)\<close> for an integer.\<close>

definition digit_char :: "nat \<Rightarrow> char" where
  "digit_char d =
     (if d = 0 then CHR ''0'' else if d = 1 then CHR ''1'' else if d = 2 then CHR ''2''
      else if d = 3 then CHR ''3'' else if d = 4 then CHR ''4'' else if d = 5 then CHR ''5''
      else if d = 6 then CHR ''6'' else if d = 7 then CHR ''7'' else if d = 8 then CHR ''8''
      else CHR ''9'')"

fun str_nat :: "nat \<Rightarrow> string" where
  "str_nat n = (if n < 10 then [digit_char n] else str_nat (n div 10) @ [digit_char (n mod 10)])"

declare str_nat.simps [simp del]

definition str_int :: "int \<Rightarrow> string" where
  "str_int i = (if i < 0 then CHR 0x2D # str_nat (nat (- i)) else str_nat (nat i))"

text \<open>
  \<open>save_favourites(favs)\<close>, as the new state of the file. A failing write is logged and
  swallowed by the outer \<open>except\<close> and leaves the file as it was.
\<close>

definition save_favourites :: "tool_env \<Rightarrow> int list \<Rightarrow> fav_file \<Rightarrow> fav_file" where
  "save_favourites te favs file =
     (let existing_favs = (case file of Ids xs \<Rightarrow> xs | Unparsable \<Rightarrow> [] | Absent \<Rightarrow> []);
          merged = foldl (\<lambda>acc fav. if fav \<notin> set acc then acc @ [fav] else acc) existing_favs favs
      in if writable te then Ids merged else file)"

text \<open>\<open>AddFavouriteTool._run\<close>: the returned text and the new state of the file.\<close>

definition add_favourite_run :: "tool_env \<Rightarrow> string \<Rightarrow> fav_file \<Rightarrow> string \<times> fav_file" where
  "add_favourite_run te movie_name file =
     (case search_movie_id te movie_name of
        None \<Rightarrow>
          (''Movie '' @ [CHR 0x27] @ movie_name @ [CHR 0x27] @ '' not found. Cannot add to favourites.'', file)
      | Some movie_id \<Rightarrow>
          if movie_id = 0 then
            (''Movie '' @ [CHR 0x27] @ movie_name @ [CHR 0x27] @ '' not found. Cannot add to favourites.'', file)
          else (''Added '' @ str_int movie_id @ '' to favourites.'', save_favourites te [movie_id] file))"

text \<open>
  \<open>DeleteFavouriteTool._run\<close>. The file is read by a bare \<open>json.load\<close>, so its
  exception reaches the outer \<open>except\<close>, as does one of the write.
\<close>

definition delete_favourite_run :: "tool_env \<Rightarrow> string \<Rightarrow> fav_file \<Rightarrow> string \<times> fav_file" where
  "delete_favourite_run te movie_name file =
     (case search_movie_id te movie_name of
        None \<Rightarrow>
          (''Movie '' @ [CHR 0x27] @ movie_name @ [CHR 0x27] @ '' not found. Cannot delete from favourites.'', file)
      | Some movie_id \<Rightarrow>
          if movie_id = 0 then
            (''Movie '' @ [CHR 0x27] @ movie_name @ [CHR 0x27] @ '' not found. Cannot delete from favourites.'', file)
          else
            (case (case file of Ids xs \<Rightarrow> Some xs | Absent \<Rightarrow> Some [] | Unparsable \<Rightarrow> None) of
               None \<Rightarrow> (''Error deleting favourite '' @ str_int movie_id @ '': '' @ json_error te, file)
             | Some fav_ids \<Rightarrow>
                 if movie_id \<in> set fav_ids then
                   (if writable te
                    then (''Deleted '' @ str_int movie_id @ '' from favourites.'', Ids (remove1 movie_id fav_ids))
                    else (''Error deleting favourite '' @ str_int movie_id @ '': '' @ write_error te, file))
                 else (''Movie ID '' @ str_int movie_id @ '' not found in favourites.'', file)))"

section \<open>Notions used in the statements\<close>

text \<open>The last \<open>n\<close> items of a list, in their order.\<close>

definition last_n :: "nat \<Rightarrow> 'a list \<Rightarrow> 'a list" where
  "last_n n xs = drop (length xs - n) xs"

definition valid_role :: "string \<Rightarrow> bool" where
  "valid_role r = (r = ''user'' \<or> r = ''assistant'' \<or> r = ''system'')"

text \<open>A sequence of \<open>_add_message(role, content)\<close> calls on one context.\<close>

fun add_all :: "(string \<times> pyval) list \<Rightarrow> conversation_context \<Rightarrow> conversation_context" where
  "add_all [] ctx = ctx"
| "add_all ((r, c) # rest) ctx = add_all rest (snd (add_message r c ctx))"

definition mk_message :: "string \<times> pyval \<Rightarrow> message" where
  "mk_message rc = \<lparr>role = fst rc, content = snd rc\<rparr>"

text \<open>
  Collaborators for the examples: all of them answering; the search raising while the agent
  would answer; the search answering while \<open>start_model\<close> raises.
\<close>

definition agent_up :: collaborators where
  "agent_up = \<lparr>search_movies = (\<lambda>q k. Inr (PList [])),
               start_model = Inr (\<lambda>p. Inr (PStr ''Try Heat'')),
               repr = (\<lambda>v. ''[]'')\<rparr>"

definition search_down :: collaborators where
  "search_down = \<lparr>search_movies = (\<lambda>q k. Inl Exception),
                  start_model = Inr (\<lambda>p. Inr (PStr ''Try Heat'')),
                  repr = (\<lambda>v. ''[]'')\<rparr>"

definition agent_down :: collaborators where
  "agent_down = \<lparr>search_movies = (\<lambda>q k. Inr (PList [])),
                 start_model = Inl Exception,
                 repr = (\<lambda>v. ''[]'')\<rparr>"

text \<open>A context of capacity 2 that already holds two messages.\<close>

definition full_context :: conversation_context where
  "full_context =
     \<lparr>max_history = 2,
      messages = [\<lparr>role = ''user'', content = PStr ''a''\<rparr>, \<lparr>role = ''assistant'', content = PStr ''b''\<rparr>],
      movies = [], chromadb_results = []\<rparr>"

text \<open>
  The reading of a metadata dictionary that the favourites summary is stated with: whether
  the entry is flagged (\<open>favorite is True\<close>), its title as text, its
  \<open>favorite_movies\<close> list as texts, and when those two fields hold text at all.
\<close>

definition is_str :: "pyval \<Rightarrow> bool" where
  "is_str v = (case v of PStr s \<Rightarrow> True | _ \<Rightarrow> False)"

definition the_str :: "pyval \<Rightarrow> string" where
  "the_str v = (case v of PStr s \<Rightarrow> s | _ \<Rightarrow> [])"

definition is_favorite :: "(string \<times> pyval) list \<Rightarrow> bool" where
  "is_favorite meta = (map_of meta ''favorite'' = Some (PBool True))"

definition title_text :: "(string \<times> pyval) list \<Rightarrow> string" where
  "title_text meta = (case map_of meta ''title'' of Some (PStr s) \<Rightarrow> s | _ \<Rightarrow> [])"

definition title_is_text :: "(string \<times> pyval) list \<Rightarrow> bool" where
  "title_is_text meta =
     (case map_of meta ''title'' of
        None \<Rightarrow> True | Some PNone \<Rightarrow> True | Some (PStr s) \<Rightarrow> True | Some _ \<Rightarrow> False)"

definition favorite_list :: "(string \<times> pyval) list \<Rightarrow> string list" where
  "favorite_list meta =
     (case map_of meta ''favorite_movies'' of Some (PList vs) \<Rightarrow> map the_str vs | _ \<Rightarrow> [])"

definition favorite_list_is_text :: "(string \<times> pyval) list \<Rightarrow> bool" where
  "favorite_list_is_text meta =
     (case map_of meta ''favorite_movies'' of
        None \<Rightarrow> True | Some (PList vs) \<Rightarrow> list_all is_str vs | Some _ \<Rightarrow> False)"

definition carries_favorite_list :: "(string \<times> pyval) list \<Rightarrow> bool" where
  "carries_favorite_list meta =
     (case map_of meta ''favorite_movies'' of Some (PList vs) \<Rightarrow> True | _ \<Rightarrow> False)"

definition none_stored :: string where
  "none_stored = ''No favorite movies stored.''"

text \<open>
  The three tiers of the favourites summary, with the second tier taken when the
  concatenation of the \<open>favorite_movies\<close> lists is not empty.
\<close>

definition favorites_summary :: "(string \<times> pyval) list list \<Rightarrow> string" where
  "favorites_summary metas =
     (if list_ex is_favorite metas then
        (let titles = filter (\<lambda>t. t \<noteq> []) (map title_text (filter is_favorite metas))
         in if titles = [] then none_stored else join '', '' titles)
      else
        (let favs = concat (map favorite_list metas)
         in if favs \<noteq> [] then join '', '' favs else none_stored))"

text \<open>
  The three tiers in the words of the specification: the second tier is taken when any
  entry carries a \<open>favorite_movies\<close> list.
\<close>

definition favorites_summary_as_specified :: "(string \<times> pyval) list list \<Rightarrow> string" where
  "favorites_summary_as_specified metas =
     (if list_ex is_favorite metas then
        (let titles = filter (\<lambda>t. t \<noteq> []) (map title_text (filter is_favorite metas))
         in if titles = [] then none_stored else join '', '' titles)
      else if list_ex carries_favorite_list metas then
        join '', '' (concat (map favorite_list metas))
      else none_stored)"

text \<open>The context with every \<open>favorite_movies\<close> field removed from its entries.\<close>

definition without_favorite_lists :: "conversation_context \<Rightarrow> conversation_context" where
  "without_favorite_lists ctx =
     ctx\<lparr>movies := map (\<lambda>(k, meta). (k, filter (\<lambda>kv. fst kv \<noteq> ''favorite_movies'') meta))
                        (movies ctx)\<rparr>"

text \<open>
  Entries for the examples: a flagged entry \<open>A\<close> beside an entry \<open>B\<close> with the list
  \<open>["C"]\<close>; and a single entry whose \<open>favorite_movies\<close> list is empty.
\<close>

definition flagged_and_listed :: conversation_context where
  "flagged_and_listed =
     \<lparr>max_history = 10, messages = [],
      movies = [(''1'', [(''title'', PStr ''A''), (''favorite'', PBool True)]),
                (''2'', [(''title'', PStr ''B''), (''favorite_movies'', PList [PStr ''C''])])],
      chromadb_results = []\<rparr>"

definition empty_list_only :: conversation_context where
  "empty_list_only =
     \<lparr>max_history = 10, messages = [],
      movies = [(''1'', [(''title'', PStr ''A''), (''favorite_movies'', PList [])])],
      chromadb_results = []\<rparr>"

text \<open>
  Agents for the examples: one that returns a structured response whose last message is an
  object with text content, one whose last message has a list of content blocks
  (\<open>[{"type": "text", "text": "Try Heat"}]\<close>) as its content.
\<close>

definition structured_agent :: collaborators where
  "structured_agent =
     \<lparr>search_movies = (\<lambda>q k. Inr (PList [])),
      start_model = Inr (\<lambda>p. Inr (PDict [(''messages'',
          PList [PObj [(''content'', PStr ''q'')], PObj [(''content'', PStr '' Try Heat '')]])])),
      repr = (\<lambda>v. ''[]'')\<rparr>"

definition block_content_agent :: collaborators where
  "block_content_agent =
     \<lparr>search_movies = (\<lambda>q k. Inr (PList [])),
      start_model = Inr (\<lambda>p. Inr (PDict [(''messages'',
          PList [PObj [(''content'',
            PList [PDict [(''type'', PStr ''text''), (''text'', PStr ''Try Heat'')]])]])])),
      repr = (\<lambda>v. ''[]'')\<rparr>"

definition some_prompt_vars :: prompt_vars where
  "some_prompt_vars =
     \<lparr>conversation_history = ''User: hi'', favorite_movies = ''No favorite movies stored.'',
      movies_list = PList [], user_message = ''hi''\<rparr>"

text \<open>A tool environment in which the name resolves to the id 27205 and the file is writable.\<close>

definition tmdb_finds :: tool_env where
  "tmdb_finds =
     \<lparr>search_movie_id = (\<lambda>name. Some 27205), writable = True,
      json_error = ''Expecting value: line 1 column 1 (char 0)'',
      write_error = ''Permission denied''\<rparr>"

section \<open>The history buffer\<close>

lemma slice_from_neg_pos: "0 < k \<Longrightarrow> slice_from (- k) xs = last_n (nat k) xs"
  unfolding slice_from_def last_n_def Let_def
  by (auto simp: max_def intro!: arg_cong [where f = "\<lambda>n. drop n xs"])

lemma slice_from_zero: "slice_from 0 xs = xs"
  by (simp add: slice_from_def)

lemma last_n_short: "length xs \<le> n \<Longrightarrow> last_n n xs = xs"
  by (simp add: last_n_def)

lemma length_last_n: "length (last_n n xs) = min n (length xs)"
  by (simp add: last_n_def)

lemma last_n_append_last_n: "last_n n (last_n n xs @ ys) = last_n n (xs @ ys)"
proof -
  have "length xs + length ys - (length xs - n + n) + (length xs - n) = length xs + length ys - n"
    by arith
  then show ?thesis by (simp add: last_n_def)
qed

lemma last_n_append_long: "n \<le> length ys \<Longrightarrow> last_n n (xs @ ys) = last_n n ys"
  by (simp add: last_n_def)

lemma messages_add_message:
  assumes "valid_role r" "1 \<le> max_history ctx"
  shows "messages (snd (add_message r c ctx)) =
         last_n (nat (max_history ctx)) (messages ctx @ [\<lparr>role = r, content = c\<rparr>])"
  using assms
  by (auto simp: add_message_def valid_role_def Let_def slice_from_neg_pos last_n_short)

lemma max_history_add_message: "max_history (snd (add_message r c ctx)) = max_history ctx"
  by (simp add: add_message_def Let_def)

lemma messages_add_all:
  assumes "list_all (\<lambda>rc. valid_role (fst rc)) rcs" "1 \<le> max_history ctx" "rcs \<noteq> []"
  shows "messages (add_all rcs ctx) =
         last_n (nat (max_history ctx)) (messages ctx @ map mk_message rcs)"
  using assms
proof (induction rcs arbitrary: ctx)
  case Nil
  then show ?case by simp
next
  case (Cons rc rest)
  obtain r c where rc: "rc = (r, c)" by (cases rc)
  let ?ctx1 = "snd (add_message r c ctx)"
  have v: "valid_role r" using Cons.prems(1) rc by simp
  have m1: "messages ?ctx1 = last_n (nat (max_history ctx)) (messages ctx @ [mk_message rc])"
    using messages_add_message [OF v Cons.prems(2)] rc by (simp add: mk_message_def)
  show ?case
  proof (cases "rest = []")
    case True
    then show ?thesis using m1 rc by simp
  next
    case False
    have "messages (add_all rest ?ctx1) =
          last_n (nat (max_history ?ctx1)) (messages ?ctx1 @ map mk_message rest)"
      using Cons.IH [of ?ctx1] Cons.prems False by (simp add: max_history_add_message)
    then show ?thesis
      using m1 rc by (simp add: max_history_add_message last_n_append_last_n)
  qed
qed

lemma last_slice_from: "slice_from k xs \<noteq> [] \<Longrightarrow> last (slice_from k xs) = last xs"
  by (simp add: slice_from_def Let_def)

lemma add_message_last:
  assumes "valid_role r" "0 \<le> max_history ctx"
  shows "messages (snd (add_message r c ctx)) \<noteq> [] \<and>
         last (messages (snd (add_message r c ctx))) = \<lparr>role = r, content = c\<rparr>"
  using assms
  by (auto simp: add_message_def valid_role_def Let_def slice_from_def max_def)

text \<open>
  C4, amended. For every context whose \<open>max_history\<close> is at least 1 and every non-empty
  sequence of appends with valid roles: the history is never longer than
  \<open>max_history\<close>, after the whole sequence and after each append of it; it consists of
  the last \<open>max_history\<close> messages of the earlier history followed by the appended ones;
  and once more than \<open>max_history\<close> messages were appended it is exactly the last
  \<open>max_history\<close> appended ones, in the order of their insertion.
\<close>

theorem history_bounded_fifo:
  assumes "1 \<le> max_history ctx"
    and "list_all (\<lambda>rc. valid_role (fst rc)) rcs"
    and "rcs \<noteq> []"
  shows "int (length (messages (add_all rcs ctx))) \<le> max_history ctx
       \<and> (\<forall>k. 1 \<le> k \<and> k \<le> length rcs \<longrightarrow>
             int (length (messages (add_all (take k rcs) ctx))) \<le> max_history ctx)
       \<and> messages (add_all rcs ctx) =
           last_n (nat (max_history ctx)) (messages ctx @ map mk_message rcs)
       \<and> (int (length rcs) > max_history ctx \<longrightarrow>
             messages (add_all rcs ctx) = last_n (nat (max_history ctx)) (map mk_message rcs)
           \<and> int (length (messages (add_all rcs ctx))) = max_history ctx)"
proof -
  have whole: "messages (add_all rcs ctx) =
      last_n (nat (max_history ctx)) (messages ctx @ map mk_message rcs)"
    using messages_add_all [OF assms(2) assms(1) assms(3)] .
  have bound: "int (length (messages (add_all rcs ctx))) \<le> max_history ctx"
    using assms(1) by (simp add: whole length_last_n)
  have each: "int (length (messages (add_all (take k rcs) ctx))) \<le> max_history ctx"
    if k: "1 \<le> k \<and> k \<le> length rcs" for k
  proof -
    have v: "list_all (\<lambda>rc. valid_role (fst rc)) (take k rcs)"
      using assms(2) by (auto simp: list_all_iff dest: in_set_takeD)
    have ne: "take k rcs \<noteq> []" using k assms(3) by (cases rcs) auto
    show ?thesis
      using assms(1) by (simp add: messages_add_all [OF v assms(1) ne] length_last_n)
  qed
  have long: "messages (add_all rcs ctx) = last_n (nat (max_history ctx)) (map mk_message rcs)
      \<and> int (length (messages (add_all rcs ctx))) = max_history ctx"
    if "int (length rcs) > max_history ctx"
  proof -
    have "nat (max_history ctx) \<le> length (map mk_message rcs)" using that by simp
    then show ?thesis
      using assms(1) that by (simp add: whole last_n_append_long length_last_n)
  qed
  show ?thesis using whole bound each long by blast
qed

theorem history_bounded_fifo_witness:
  "messages (add_all [(''user'', PStr ''a''), (''assistant'', PStr ''b''), (''user'', PStr ''c'')] (init 2))
     = [\<lparr>role = ''assistant'', content = PStr ''b''\<rparr>, \<lparr>role = ''user'', content = PStr ''c''\<rparr>]
   \<and> int (length (messages (add_all [(''user'', PStr ''a''), (''assistant'', PStr ''b''), (''user'', PStr ''c'')] (init 2))))
     = max_history (init 2)"
  using history_bounded_fifo [of "init 2"
      "[(''user'', PStr ''a''), (''assistant'', PStr ''b''), (''user'', PStr ''c'')]"]
  by (simp add: init_def valid_role_def last_n_def mk_message_def)

text \<open>
  C4 as stated fails: the constructor accepts \<open>max_history = -1\<close>, and after one append
  to that context the length of the history (0) is not at most \<open>max_history\<close>.
\<close>

theorem history_bound_fails_for_negative_capacity:
  "\<not> int (length (messages (add_all [(''user'', PStr ''a'')] (init (- 1)))))
       \<le> max_history (init (- 1))"
  by (simp add: init_def add_message_def slice_from_def)

text \<open>
  With \<open>max_history = 0\<close> the trim \<open>self.messages[-0:]\<close> keeps the whole list, so the
  history grows without bound.
\<close>

lemma history_unbounded_for_zero_capacity:
  "max_history ctx = 0 \<Longrightarrow> valid_role r \<Longrightarrow>
   messages (snd (add_message r c ctx)) = messages ctx @ [\<lparr>role = r, content = c\<rparr>]"
  by (auto simp: add_message_def valid_role_def Let_def slice_from_zero)

text \<open>
  C9, amended. For every buffer state, \<open>get_recent(n)\<close> returns all messages when
  \<open>n\<close> is absent (\<open>None\<close>) or at least the current length, returns the last \<open>n\<close>
  messages in chronological order for every \<open>n\<close> from 1 on, and leaves the context as
  it was for every argument.
\<close>

theorem get_recent_last_n:
  "fst (get_recent None ctx) = messages ctx
   \<and> (int (length (messages ctx)) \<le> n \<longrightarrow> fst (get_recent (Some n) ctx) = messages ctx)
   \<and> (1 \<le> k \<longrightarrow> fst (get_recent (Some k) ctx) = last_n (nat k) (messages ctx))
   \<and> snd (get_recent m ctx) = ctx"
  by (auto simp: get_recent_def slice_from_neg_pos last_n_short)

theorem get_recent_last_n_witness:
  "fst (get_recent None full_context) = messages full_context
   \<and> fst (get_recent (Some 2) full_context) = messages full_context
   \<and> fst (get_recent (Some 1) full_context) = [\<lparr>role = ''assistant'', content = PStr ''b''\<rparr>]
   \<and> snd (get_recent (Some 1) full_context) = full_context"
  using get_recent_last_n [of full_context 2 1 "Some 1"]
  by (simp add: full_context_def last_n_def)

text \<open>
  C9 as stated fails: \<open>get_recent(-1)\<close> on a buffer of two messages returns one message
  (\<open>self.messages[1:]\<close>), which is not the last \<open>-1\<close> messages under any reading.
\<close>

theorem get_recent_negative_drops_from_front:
  "fst (get_recent (Some (- 1)) full_context) = [\<lparr>role = ''assistant'', content = PStr ''b''\<rparr>]
   \<and> fst (get_recent (Some (- 1)) full_context) \<noteq> last_n (nat (- 1)) (messages full_context)
   \<and> int (length (fst (get_recent (Some (- 1)) full_context))) \<noteq> - 1"
  by (simp add: get_recent_def full_context_def slice_from_def last_n_def)

text \<open>
  \<open>get_recent(0)\<close> on a buffer of two messages returns both of them, not the last 0
  messages: \<open>self.messages[-0:]\<close> is the whole list.
\<close>

lemma get_recent_zero_returns_all:
  "fst (get_recent (Some 0) full_context) = messages full_context
   \<and> fst (get_recent (Some 0) full_context) \<noteq> last_n 0 (messages full_context)"
  by (simp add: get_recent_def full_context_def slice_from_def last_n_def)

section \<open>The reply pipeline\<close>

lemma fst_add_message_roles:
  "fst (add_user_message c ctx) = Inr ()"
  "fst (add_assistant_message c ctx) = Inr ()"
  by (simp_all add: add_user_message_def add_assistant_message_def add_message_def Let_def)

text \<open>What \<open>generate_reply\<close> does once the message passed the validation.\<close>

lemma generate_reply_valid:
  assumes "py_strip msg \<noteq> []"
  shows "generate_reply cs (PStr msg) t ctx =
     (let ctx1 = snd (add_user_message (PStr msg) ctx);
          reply = (if t then (case search_movies cs msg 5 of
                                Inl e \<Rightarrow> PStr chromadb_unavailable | Inr found \<Rightarrow> found)
                   else (case agent_stage cs ctx1 msg
                                (case search_movies cs msg 5 of Inl e \<Rightarrow> None | Inr found \<Rightarrow> Some found) of
                           Inl e \<Rightarrow> PStr fallback_reply | Inr text \<Rightarrow> PStr text))
      in (Inr reply, snd (add_assistant_message reply ctx1)))"
  using assms
  by (simp add: generate_reply_def Let_def split_beta fst_add_message_roles)

lemma strip_hi: "py_strip ''hi'' = ''hi''"
  by (simp add: py_strip_def py_isspace_def)

lemma strip_blank: "py_strip ''  '' = []"
  by (simp add: py_strip_def py_isspace_def)

text \<open>
  C1, amended. For every context and every message that is non-empty after trimming,
  \<open>generate_reply\<close> returns a reply and makes exactly two appends, whatever the
  retrieval and agent stages do: first the user message with role \<open>user\<close>, then the
  returned reply with role \<open>assistant\<close>. Each append trims the history to
  \<open>max_history\<close>: when the earlier length plus 2 is at most \<open>max_history\<close> the history
  is the earlier one followed by the two messages (its length grows by exactly 2); in
  general, for \<open>max_history\<close> from 1 on, it is the last \<open>max_history\<close> messages of the
  earlier history followed by the two messages.
\<close>

theorem generate_reply_appends_user_then_assistant:
  assumes "py_strip msg \<noteq> []"
  shows "\<exists>reply.
     generate_reply cs (PStr msg) t ctx =
       (Inr reply, snd (add_assistant_message reply (snd (add_user_message (PStr msg) ctx)))) \<and>
     (int (length (messages ctx)) + 2 \<le> max_history ctx \<longrightarrow>
        messages (snd (generate_reply cs (PStr msg) t ctx)) =
          messages ctx @ [\<lparr>role = ''user'', content = PStr msg\<rparr>,
                          \<lparr>role = ''assistant'', content = reply\<rparr>] \<and>
        length (messages (snd (generate_reply cs (PStr msg) t ctx))) = length (messages ctx) + 2) \<and>
     (1 \<le> max_history ctx \<longrightarrow>
        messages (snd (generate_reply cs (PStr msg) t ctx)) =
          last_n (nat (max_history ctx))
            (messages ctx @ [\<lparr>role = ''user'', content = PStr msg\<rparr>,
                            \<lparr>role = ''assistant'', content = reply\<rparr>]))"
proof -
  let ?ctx1 = "snd (add_user_message (PStr msg) ctx)"
  let ?u = "\<lparr>role = ''user'', content = PStr msg\<rparr>"
  obtain reply where r: "generate_reply cs (PStr msg) t ctx =
      (Inr reply, snd (add_assistant_message reply ?ctx1))"
    using generate_reply_valid [OF assms, of cs t ctx] by (simp add: Let_def)
  let ?a = "\<lparr>role = ''assistant'', content = reply\<rparr>"
  have a: "messages (snd (add_assistant_message reply ?ctx1)) =
      last_n (nat (max_history ctx)) (messages ctx @ [?u, ?a])"
    if "1 \<le> max_history ctx"
    unfolding add_user_message_def add_assistant_message_def
    using that last_n_append_last_n [of "nat (max_history ctx)" "messages ctx @ [?u]" "[?a]"]
    by (simp add: messages_add_message max_history_add_message valid_role_def)
  have b: "messages (snd (add_assistant_message reply ?ctx1)) = messages ctx @ [?u, ?a]"
    if "int (length (messages ctx)) + 2 \<le> max_history ctx"
    using a that by (simp add: last_n_short)
  show ?thesis using r a b by auto
qed

theorem generate_reply_appends_user_then_assistant_witness:
  "py_strip ''hi'' \<noteq> [] \<and>
   generate_reply agent_up (PStr ''hi'') False (init 10) =
     (Inr (PStr ''Try Heat''),
      \<lparr>max_history = 10,
       messages = [\<lparr>role = ''user'', content = PStr ''hi''\<rparr>,
                   \<lparr>role = ''assistant'', content = PStr ''Try Heat''\<rparr>],
       movies = [], chromadb_results = []\<rparr>)"
proof -
  have h: "py_strip ''hi'' \<noteq> []" by (simp add: strip_hi)
  obtain reply where
    g: "generate_reply agent_up (PStr ''hi'') False (init 10) =
          (Inr reply, snd (add_assistant_message reply (snd (add_user_message (PStr ''hi'') (init 10)))))"
    and m: "int (length (messages (init 10))) + 2 \<le> max_history (init 10) \<longrightarrow>
          messages (snd (generate_reply agent_up (PStr ''hi'') False (init 10))) =
            messages (init 10) @ [\<lparr>role = ''user'', content = PStr ''hi''\<rparr>,
                                  \<lparr>role = ''assistant'', content = reply\<rparr>] \<and>
          length (messages (snd (generate_reply agent_up (PStr ''hi'') False (init 10)))) =
            length (messages (init 10)) + 2"
    using generate_reply_appends_user_then_assistant [OF h, of agent_up False "init 10"] by blast
  have e: "fst (generate_reply agent_up (PStr ''hi'') False (init 10)) = Inr (PStr ''Try Heat'')"
    by (simp add: generate_reply_valid strip_hi agent_up_def agent_stage_def Let_def init_def
        add_user_message_def add_message_def
        build_prompt_vars_def get_favorite_movies_def chat_with_agent_def extract_reply_def
        py_strip_def py_isspace_def)
  have "reply = PStr ''Try Heat''" using g e by simp
  then show ?thesis
    using h g by (simp add: init_def add_user_message_def add_assistant_message_def
        add_message_def Let_def)
qed

text \<open>
  C1 as stated fails: in a context of capacity 2 that holds two messages, the history has
  two messages after the call as before it, not two more.
\<close>

theorem generate_reply_length_not_plus_two:
  "length (messages (snd (generate_reply agent_up (PStr ''hi'') False full_context)))
     \<noteq> length (messages full_context) + 2"
  by (simp add: generate_reply_valid strip_hi Let_def full_context_def
      add_user_message_def add_assistant_message_def add_message_def slice_from_def)

text \<open>
  When \<open>search_movies\<close> raises in the agent branch, \<open>llama_reply\<close> stays unbound, the
  second \<open>try\<close> fails on reading it, and the reply is the fallback whatever the agent
  would have answered.
\<close>

lemma search_error_gives_fallback:
  assumes "py_strip msg \<noteq> []" "search_movies cs msg 5 = Inl e"
  shows "fst (generate_reply cs (PStr msg) False ctx) = Inr (PStr fallback_reply)"
  using assms by (simp add: generate_reply_valid agent_stage_def Let_def)

text \<open>
  C2, the failing input. The search raises and the agent would answer \<open>Try Heat\<close>: the
  agent is never invoked, and the reply is the fallback string, not the agent's text.
\<close>

theorem retrieval_failure_preempts_agent:
  "agent_stage search_down (snd (add_user_message (PStr ''hi'') (init 10))) ''hi'' None
     = Inl UnboundLocalError
   \<and> fst (generate_reply search_down (PStr ''hi'') False (init 10)) = Inr (PStr fallback_reply)
   \<and> fst (generate_reply search_down (PStr ''hi'') False (init 10)) \<noteq> Inr (PStr ''Try Heat'')"
  by (simp add: generate_reply_valid strip_hi search_down_def agent_stage_def Let_def
      fallback_reply_def)

lemma agent_stage_init_error: "start_model cs = Inl e \<Longrightarrow> isl (agent_stage cs ctx msg l)"
  by (auto simp: agent_stage_def chat_with_agent_def split: option.splits sum.splits)

lemma agent_stage_invoke_error:
  assumes "start_model cs = Inr agent" and "\<And>p. isl (agent p)"
  shows "isl (agent_stage cs ctx msg l)"
proof -
  have "isl (chat_with_agent cs pv)" for pv
  proof -
    obtain e where "agent (chat_prompt_format (repr cs) pv) = Inl e"
      using assms(2) [of "chat_prompt_format (repr cs) pv"] by (auto simp: isl_def)
    then show ?thesis using assms(1) by (simp add: chat_with_agent_def)
  qed
  then show ?thesis
    by (simp add: agent_stage_def split: option.splits sum.splits)
qed

text \<open>
  C3, amended. For every context and every valid message: if the retrieval succeeds and
  the agent stage raises, \<open>generate_reply\<close> returns the fixed fallback string, and what
  it appends with role \<open>assistant\<close> is exactly that string; in every context whose
  \<open>max_history\<close> is not negative, the last message of the history is then the
  assistant message with that string.
\<close>

theorem agent_failure_gives_fallback:
  assumes "py_strip msg \<noteq> []"
    and "search_movies cs msg 5 = Inr found"
    and "isl (agent_stage cs (snd (add_user_message (PStr msg) ctx)) msg (Some found))"
  shows "fst (generate_reply cs (PStr msg) False ctx) = Inr (PStr fallback_reply)
       \<and> fallback_reply = ''Sorry, I am unable to generate a reply at the moment. Please try again later.''
       \<and> snd (generate_reply cs (PStr msg) False ctx)
           = snd (add_assistant_message (PStr fallback_reply) (snd (add_user_message (PStr msg) ctx)))
       \<and> (0 \<le> max_history ctx \<longrightarrow>
             messages (snd (generate_reply cs (PStr msg) False ctx)) \<noteq> []
           \<and> last (messages (snd (generate_reply cs (PStr msg) False ctx)))
               = \<lparr>role = ''assistant'', content = PStr fallback_reply\<rparr>)"
proof -
  let ?ctx1 = "snd (add_user_message (PStr msg) ctx)"
  have g: "generate_reply cs (PStr msg) False ctx =
      (Inr (PStr fallback_reply), snd (add_assistant_message (PStr fallback_reply) ?ctx1))"
    using assms(2,3) by (auto simp: generate_reply_valid [OF assms(1)] Let_def isl_def)
  have "max_history ?ctx1 = max_history ctx"
    by (simp add: add_user_message_def max_history_add_message)
  then show ?thesis
    using g
    by (simp add: add_assistant_message_def add_message_last valid_role_def fallback_reply_def)
qed

theorem agent_failure_gives_fallback_witness:
  "fst (generate_reply agent_down (PStr ''hi'') False (init 10)) = Inr (PStr fallback_reply)
   \<and> last (messages (snd (generate_reply agent_down (PStr ''hi'') False (init 10))))
       = \<lparr>role = ''assistant'', content = PStr fallback_reply\<rparr>"
proof -
  have h1: "py_strip ''hi'' \<noteq> []" by (simp add: strip_hi)
  have h2: "search_movies agent_down ''hi'' 5 = Inr (PList [])" by (simp add: agent_down_def)
  have h3: "isl (agent_stage agent_down (snd (add_user_message (PStr ''hi'') (init 10))) ''hi''
                  (Some (PList [])))"
    by (rule agent_stage_init_error [of _ Exception]) (simp add: agent_down_def)
  have h4: "0 \<le> max_history (init 10)" by (simp add: init_def)
  show ?thesis using agent_failure_gives_fallback [OF h1 h2 h3] h4 by blast
qed

text \<open>
  C3 as stated fails: the constructor accepts \<open>max_history = -1\<close>, and in that context
  the history is empty after the call, so no assistant message holds the fallback.
\<close>

theorem fallback_not_recorded_for_negative_capacity:
  "fst (generate_reply agent_down (PStr ''hi'') False (init (- 1))) = Inr (PStr fallback_reply)
   \<and> messages (snd (generate_reply agent_down (PStr ''hi'') False (init (- 1)))) = []"
  by (simp add: generate_reply_valid strip_hi agent_down_def agent_stage_def Let_def init_def
      add_user_message_def add_assistant_message_def add_message_def slice_from_def
      build_prompt_vars_def get_favorite_movies_def chat_with_agent_def)

text \<open>
  C5. \<open>generate_reply\<close> called with a value that is not a string, or with a string that
  is empty after trimming, raises \<open>ValueError\<close> (it returns no reply) and leaves the
  context as it was; \<open>_add_message\<close> called with a role outside
  \<open>{user, assistant, system}\<close> raises \<open>ValueError\<close> and leaves the context as it was.
\<close>

theorem malformed_input_raises_without_mutation:
  "((case um of PStr msg \<Rightarrow> py_strip msg = [] | _ \<Rightarrow> True) \<longrightarrow>
      generate_reply cs um t ctx = (Inl ValueError, ctx))
   \<and> (r \<notin> {''user'', ''assistant'', ''system''} \<longrightarrow>
      add_message r c ctx = (Inl ValueError, ctx))"
  by (auto simp: generate_reply_def add_message_def split: pyval.splits)

theorem malformed_input_raises_without_mutation_witness:
  "generate_reply agent_up (PStr ''  '') False full_context = (Inl ValueError, full_context)
   \<and> add_message ''robot'' (PStr ''x'') full_context = (Inl ValueError, full_context)"
  using malformed_input_raises_without_mutation
    [of "PStr ''  ''" agent_up False full_context "''robot''" "PStr ''x''"]
  by (simp add: strip_blank)

text \<open>
  C10. Whatever the call does (a reply, a failing stage, a rejected message),
  \<open>generate_reply\<close> leaves \<open>movies\<close> and \<open>chromadb_results\<close> (and \<open>max_history\<close>)
  as they were: only \<open>messages\<close> can change.
\<close>

theorem generate_reply_frame:
  "movies (snd (generate_reply cs um t ctx)) = movies ctx
   \<and> chromadb_results (snd (generate_reply cs um t ctx)) = chromadb_results ctx
   \<and> max_history (snd (generate_reply cs um t ctx)) = max_history ctx
   \<and> snd (generate_reply cs um t ctx) = ctx\<lparr>messages := messages (snd (generate_reply cs um t ctx))\<rparr>"
  by (auto simp: generate_reply_def add_user_message_def add_assistant_message_def
      add_message_def Let_def split: pyval.splits sum.splits prod.splits)

theorem generate_reply_frame_witness:
  "movies (snd (generate_reply agent_up (PStr ''hi'') False full_context)) = movies full_context
   \<and> chromadb_results (snd (generate_reply agent_up (PStr ''hi'') False full_context))
       = chromadb_results full_context
   \<and> messages (snd (generate_reply agent_up (PStr ''hi'') False full_context))
       \<noteq> messages full_context"
proof -
  have "messages (snd (generate_reply agent_up (PStr ''hi'') False full_context))
      \<noteq> messages full_context"
    by (simp add: generate_reply_valid strip_hi Let_def full_context_def
        add_user_message_def add_assistant_message_def add_message_def slice_from_def)
  then show ?thesis
    using generate_reply_frame [of agent_up "PStr ''hi''" False full_context] by simp
qed

section \<open>The favourites summary\<close>

lemma strings_of_map_PStr: "strings_of (map PStr ss) = Some ss"
  by (induction ss) auto

lemma py_join_texts: "py_join sep (map PStr ss) = Inr (join sep ss)"
  by (simp add: py_join_def strings_of_map_PStr)

lemma join_eq_Nil: "(\<And>x. x \<in> set xs \<Longrightarrow> x \<noteq> []) \<Longrightarrow> join sep xs = [] \<longleftrightarrow> xs = []"
  by (induction sep xs rule: join.induct) auto

lemma is_favorite_dict_get: "(dict_get meta ''favorite'' PNone = PBool True) = is_favorite meta"
  by (auto simp: dict_get_def is_favorite_def split: option.splits)

lemma titles_of_text:
  assumes "list_all title_is_text ms"
  shows "map (\<lambda>m. dict_get m ''title'' (PStr []))
             (filter (\<lambda>m. truthy (dict_get m ''title'' PNone)) ms)
         = map PStr (filter (\<lambda>t. t \<noteq> []) (map title_text ms))"
  using assms
  by (induction ms)
     (auto simp: title_is_text_def title_text_def dict_get_def split: option.splits pyval.splits)

lemma map_PStr_the_str: "list_all is_str vs \<Longrightarrow> map (PStr \<circ> the_str) vs = vs"
  by (induction vs) (auto simp: is_str_def the_str_def split: pyval.splits)

lemma extend_all_text:
  assumes "list_all favorite_list_is_text ms"
  shows "extend_all acc ms = Inr (acc @ map PStr (concat (map favorite_list ms)))"
  using assms
proof (induction ms arbitrary: acc)
  case Nil
  then show ?case by simp
next
  case (Cons m ms)
  have "py_iter (dict_get m ''favorite_movies'' (PList [])) = Inr (map PStr (favorite_list m))"
  proof -
    have "favorite_list_is_text m" using Cons.prems by simp
    then show ?thesis
      by (auto simp: favorite_list_is_text_def favorite_list_def dict_get_def map_PStr_the_str
          split: option.splits pyval.splits)
  qed
  then show ?case using Cons by simp
qed

lemma summary_of_flagged:
  assumes "list_ex is_favorite (map snd (movies ctx))"
    and "list_all title_is_text (filter is_favorite (map snd (movies ctx)))"
  shows "get_favorite_movies ctx = Inr (favorites_summary (map snd (movies ctx)))"
proof -
  let ?fs = "filter is_favorite (map snd (movies ctx))"
  have ne: "?fs \<noteq> []" using assms(1) by (auto simp: list_ex_iff filter_empty_conv)
  let ?ts = "filter (\<lambda>t. t \<noteq> []) (map title_text ?fs)"
  have j: "join '', '' ?ts = [] \<longleftrightarrow> ?ts = []" by (rule join_eq_Nil) auto
  show ?thesis
    using ne assms(1) j
    by (auto simp: get_favorite_movies_def favorites_summary_def Let_def is_favorite_dict_get
        titles_of_text [OF assms(2)] py_join_texts none_stored_def simp del: filter_filter)
qed

lemma summary_of_lists:
  assumes "\<not> list_ex is_favorite (map snd (movies ctx))"
    and "list_all favorite_list_is_text (map snd (movies ctx))"
  shows "get_favorite_movies ctx = Inr (favorites_summary (map snd (movies ctx)))"
proof -
  have e: "filter is_favorite (map snd (movies ctx)) = []"
    using assms(1) by (auto simp: list_ex_iff filter_empty_conv)
  show ?thesis
    using assms(1) e extend_all_text [OF assms(2), of "[]"]
    by (auto simp: get_favorite_movies_def favorites_summary_def Let_def is_favorite_dict_get
        py_join_texts none_stored_def)
qed

lemma map_of_filter_other: "k \<noteq> k' \<Longrightarrow> map_of (filter (\<lambda>kv. fst kv \<noteq> k') m) k = map_of m k"
  by (induction m) auto

lemma favorite_lists_ignored:
  assumes "list_ex is_favorite (map snd (movies ctx))"
  shows "get_favorite_movies (without_favorite_lists ctx) = get_favorite_movies ctx"
proof -
  let ?strip = "\<lambda>meta. filter (\<lambda>kv. fst kv \<noteq> ''favorite_movies'') meta"
  have m: "map snd (movies (without_favorite_lists ctx)) = map ?strip (map snd (movies ctx))"
    by (simp add: without_favorite_lists_def split_beta)
  have f: "dict_get (?strip meta) ''favorite'' d = dict_get meta ''favorite'' d" for meta d
    by (simp add: dict_get_def map_of_filter_other)
  have t: "dict_get (?strip meta) ''title'' d = dict_get meta ''title'' d" for meta d
    by (simp add: dict_get_def map_of_filter_other)
  have ne: "filter (\<lambda>meta. dict_get meta ''favorite'' PNone = PBool True) (map snd (movies ctx)) \<noteq> []"
    using assms by (auto simp: list_ex_iff filter_empty_conv is_favorite_dict_get)
  show ?thesis
    using ne
    by (simp add: get_favorite_movies_def Let_def m filter_map o_def f t del: filter_filter)
qed

text \<open>
  C6, amended. For every entities map: (1) if any entry has \<open>favorite\<close> true and the
  titles of the flagged entries are text (or absent, or \<open>None\<close>),
  \<open>get_favorite_movies\<close> returns the comma-joined non-empty titles of exactly the flagged
  entries, or the \<open>none stored\<close> message when no flagged entry has one; the
  \<open>favorite_movies\<close> fields are ignored entirely, whatever they hold: removing them
  from every entry changes nothing. (2) Otherwise, if the \<open>favorite_movies\<close> fields are
  lists of text and their concatenation is not empty, it returns the comma-join of that
  concatenation; (3) otherwise (the concatenation is empty) it returns the sentinel.
\<close>

theorem get_favorite_movies_three_tiers:
  "(list_ex is_favorite (map snd (movies ctx))
      \<and> list_all title_is_text (filter is_favorite (map snd (movies ctx)))
      \<longrightarrow> get_favorite_movies ctx = Inr (favorites_summary (map snd (movies ctx)))
        \<and> get_favorite_movies ctx =
            Inr (let titles = filter (\<lambda>t. t \<noteq> [])
                               (map title_text (filter is_favorite (map snd (movies ctx))))
                 in if titles = [] then ''No favorite movies stored.'' else join '', '' titles))
   \<and> (list_ex is_favorite (map snd (movies ctx))
      \<longrightarrow> get_favorite_movies (without_favorite_lists ctx) = get_favorite_movies ctx)
   \<and> (\<not> list_ex is_favorite (map snd (movies ctx))
      \<and> list_all favorite_list_is_text (map snd (movies ctx))
      \<longrightarrow> get_favorite_movies ctx = Inr (favorites_summary (map snd (movies ctx)))
        \<and> get_favorite_movies ctx =
            Inr (let favs = concat (map favorite_list (map snd (movies ctx)))
                 in if favs \<noteq> [] then join '', '' favs else ''No favorite movies stored.''))"
proof -
  have 1: "get_favorite_movies ctx = Inr (favorites_summary (map snd (movies ctx)))"
    if "list_ex is_favorite (map snd (movies ctx))"
      "list_all title_is_text (filter is_favorite (map snd (movies ctx)))"
    using summary_of_flagged [OF that] .
  have 2: "get_favorite_movies (without_favorite_lists ctx) = get_favorite_movies ctx"
    if "list_ex is_favorite (map snd (movies ctx))"
    using favorite_lists_ignored [OF that] .
  have 3: "get_favorite_movies ctx = Inr (favorites_summary (map snd (movies ctx)))"
    if "\<not> list_ex is_favorite (map snd (movies ctx))"
      "list_all favorite_list_is_text (map snd (movies ctx))"
    using summary_of_lists [OF that] .
  show ?thesis
    using 1 2 3 by (auto simp: favorites_summary_def none_stored_def Let_def)
qed

theorem get_favorite_movies_three_tiers_witness:
  "get_favorite_movies flagged_and_listed = Inr ''A''
   \<and> get_favorite_movies (without_favorite_lists flagged_and_listed) = Inr ''A''
   \<and> get_favorite_movies (without_favorite_lists empty_list_only) = Inr ''No favorite movies stored.''"
proof -
  have a: "list_ex is_favorite (map snd (movies flagged_and_listed))
      \<and> list_all title_is_text (filter is_favorite (map snd (movies flagged_and_listed)))"
    by (simp add: flagged_and_listed_def is_favorite_def title_is_text_def)
  have b: "\<not> list_ex is_favorite (map snd (movies (without_favorite_lists empty_list_only)))
      \<and> list_all favorite_list_is_text (map snd (movies (without_favorite_lists empty_list_only)))"
    by (simp add: empty_list_only_def without_favorite_lists_def is_favorite_def
        favorite_list_is_text_def)
  have "get_favorite_movies flagged_and_listed =
      Inr (let titles = filter (\<lambda>t. t \<noteq> [])
                  (map title_text (filter is_favorite (map snd (movies flagged_and_listed))))
           in if titles = [] then ''No favorite movies stored.'' else join '', '' titles)"
    using get_favorite_movies_three_tiers [of flagged_and_listed] a by blast
  then have "get_favorite_movies flagged_and_listed = Inr ''A''"
    by (simp add: flagged_and_listed_def is_favorite_def title_text_def)
  moreover have "get_favorite_movies (without_favorite_lists flagged_and_listed)
      = get_favorite_movies flagged_and_listed"
    using get_favorite_movies_three_tiers [of flagged_and_listed] a by blast
  moreover have "get_favorite_movies (without_favorite_lists empty_list_only) =
      Inr (let favs = concat (map favorite_list
                  (map snd (movies (without_favorite_lists empty_list_only))))
           in if favs \<noteq> [] then join '', '' favs else ''No favorite movies stored.'')"
    using get_favorite_movies_three_tiers [of "without_favorite_lists empty_list_only"] b
    by blast
  then have "get_favorite_movies (without_favorite_lists empty_list_only)
      = Inr ''No favorite movies stored.''"
    by (simp add: empty_list_only_def without_favorite_lists_def favorite_list_def)
  ultimately show ?thesis by simp
qed

text \<open>
  C6 as stated fails: an entry that carries an empty \<open>favorite_movies\<close> list, with no
  flagged entry, gives the sentinel, not the comma-join of the (empty) concatenation.
\<close>

theorem empty_favorite_list_gives_sentinel:
  "get_favorite_movies empty_list_only = Inr ''No favorite movies stored.''
   \<and> favorites_summary_as_specified (map snd (movies empty_list_only)) = []
   \<and> get_favorite_movies empty_list_only
       \<noteq> Inr (favorites_summary_as_specified (map snd (movies empty_list_only)))"
  by (simp add: get_favorite_movies_def empty_list_only_def dict_get_def py_join_def Let_def
      favorites_summary_as_specified_def is_favorite_def carries_favorite_list_def
      favorite_list_def)

section \<open>The reply extraction\<close>

lemma chat_with_agent_response:
  assumes "start_model cs = Inr agent" "agent (chat_prompt_format (repr cs) pv) = Inr response"
  shows "chat_with_agent cs pv =
     (case extract_reply (repr cs) response of
        Inl e \<Rightarrow> (if e = ValueError then Inl ValueError else Inl Exception)
      | Inr reply \<Rightarrow> Inr reply)"
  using assms by (simp add: chat_with_agent_def)

lemma call_strip_not_str:
  "\<not> is_str v \<Longrightarrow> call_strip v = Inl AttributeError \<or> call_strip v = Inl TypeError"
  by (cases v) (auto simp: is_str_def)

lemma extract_reply_text: "extract_reply rp (PStr s) = Inr (py_strip s)"
  by (simp add: extract_reply_def)

lemma extract_reply_messages:
  assumes "map_of d ''messages'' = Some (PList ms)"
  shows "extract_reply rp (PDict d) =
     (if ms = [] \<or> message_content rp (last ms) = PNone then Inr (py_strip (rp (PDict d)))
      else call_strip (message_content rp (last ms)))"
  using assms by (simp add: extract_reply_def py_str_def)

lemma extract_reply_falsy:
  assumes "map_of d ''messages'' = Some msgs" "\<not> truthy msgs"
  shows "extract_reply rp (PDict d) = Inr (py_strip (rp (PDict d)))"
  using assms by (simp add: extract_reply_def py_str_def)

lemma extract_reply_other:
  assumes "\<not> is_str response" "\<And>d. response = PDict d \<Longrightarrow> map_of d ''messages'' = None"
  shows "extract_reply rp response = Inr (rp response)"
  using assms by (cases response) (auto simp: extract_reply_def py_str_def is_str_def)

text \<open>
  What \<open>_chat_with_agent\<close> extracts when the agent starts and answers: a plain string
  response, trimmed; for a dict response whose \<open>messages\<close> is a non-empty list, the
  content of the last message, trimmed, when that content is a string, the content being
  the value under \<open>content\<close> (key of a dict, attribute of an object) or, when the
  message has none, the string form of the whole message; when the \<open>messages\<close> list is
  empty or that content is \<open>None\<close>, the string form of the whole response, trimmed; a
  response that is neither a string nor a dict with a \<open>messages\<close> key yields its
  string form. When that content is a value without \<open>strip\<close>, the call raises.
\<close>

lemma chat_with_agent_extraction:
  assumes "start_model cs = Inr agent"
    and "agent (chat_prompt_format (repr cs) pv) = Inr response"
  shows "(\<forall>s. response = PStr s \<longrightarrow> chat_with_agent cs pv = Inr (py_strip s))
    \<and> (\<forall>d ms c. response = PDict d \<and> map_of d ''messages'' = Some (PList ms) \<and> ms \<noteq> []
          \<and> message_content (repr cs) (last ms) = PStr c
          \<longrightarrow> chat_with_agent cs pv = Inr (py_strip c))
    \<and> (\<forall>d ms. response = PDict d \<and> map_of d ''messages'' = Some (PList ms)
          \<and> (ms = [] \<or> message_content (repr cs) (last ms) = PNone)
          \<longrightarrow> chat_with_agent cs pv = Inr (py_strip (repr cs response)))
    \<and> (\<forall>d ms. response = PDict d \<and> map_of d ''messages'' = Some (PList ms) \<and> ms \<noteq> []
          \<and> message_content (repr cs) (last ms) \<noteq> PNone
          \<and> \<not> is_str (message_content (repr cs) (last ms))
          \<longrightarrow> chat_with_agent cs pv = Inl Exception)
    \<and> (\<not> is_str response \<and> (\<forall>d. response = PDict d \<longrightarrow> map_of d ''messages'' = None)
          \<longrightarrow> chat_with_agent cs pv = Inr (repr cs response))
    \<and> (\<forall>m v. map_of m ''content'' = Some v \<longrightarrow>
          message_content (repr cs) (PDict m) = v \<and> message_content (repr cs) (PObj m) = v)
    \<and> (\<forall>m. map_of m ''content'' = None \<longrightarrow>
          message_content (repr cs) (PDict m) = PStr (repr cs (PDict m))
        \<and> message_content (repr cs) (PObj m) = PStr (repr cs (PObj m)))"
proof -
  note c = chat_with_agent_response [OF assms]
  have 1: "chat_with_agent cs pv = Inr (py_strip s)" if "response = PStr s" for s
    using that by (simp add: c extract_reply_text)
  have 2: "chat_with_agent cs pv = Inr (py_strip t)"
    if "response = PDict d" "map_of d ''messages'' = Some (PList ms)" "ms \<noteq> []"
      "message_content (repr cs) (last ms) = PStr t" for d ms t
    using that by (simp add: c extract_reply_messages)
  have 3: "chat_with_agent cs pv = Inr (py_strip (repr cs response))"
    if "response = PDict d" "map_of d ''messages'' = Some (PList ms)"
      "ms = [] \<or> message_content (repr cs) (last ms) = PNone" for d ms
    using that by (auto simp: c extract_reply_messages)
  have 4: "chat_with_agent cs pv = Inl Exception"
    if "response = PDict d" "map_of d ''messages'' = Some (PList ms)" "ms \<noteq> []"
      "message_content (repr cs) (last ms) \<noteq> PNone"
      "\<not> is_str (message_content (repr cs) (last ms))" for d ms
    using that call_strip_not_str [OF that(5)] by (auto simp: c extract_reply_messages)
  have 5: "chat_with_agent cs pv = Inr (repr cs response)"
    if "\<not> is_str response" "\<forall>d. response = PDict d \<longrightarrow> map_of d ''messages'' = None"
    using that by (simp add: c extract_reply_other)
  have 6: "message_content (repr cs) (PDict m) = v \<and> message_content (repr cs) (PObj m) = v"
    if "map_of m ''content'' = Some v" for m v
    using that by (simp add: dict_get_def)
  have 7: "message_content (repr cs) (PDict m) = PStr (repr cs (PDict m))
        \<and> message_content (repr cs) (PObj m) = PStr (repr cs (PObj m))"
    if "map_of m ''content'' = None" for m
    using that by (simp add: dict_get_def py_str_def)
  show ?thesis using 1 2 3 4 5 6 7 by blast
qed

lemma chat_with_agent_extraction_example:
  "chat_with_agent structured_agent some_prompt_vars = Inr ''Try Heat''"
proof -
  let ?ms = "[PObj [(''content'', PStr ''q'')], PObj [(''content'', PStr '' Try Heat '')]]"
  let ?r = "PDict [(''messages'', PList ?ms)]"
  have a: "start_model structured_agent = Inr (\<lambda>p. Inr ?r)"
    by (simp add: structured_agent_def)
  have b: "(\<lambda>p. Inr ?r) (chat_prompt_format (repr structured_agent) some_prompt_vars) = Inr ?r"
    by simp
  have "chat_with_agent structured_agent some_prompt_vars = Inr (py_strip '' Try Heat '')"
    using chat_with_agent_extraction [OF a b] by (simp add: dict_get_def)
  then show ?thesis by (simp add: py_strip_def py_isspace_def)
qed

text \<open>
  A \<open>messages\<close> value that is not a list: a false one gives the string form of the
  response, trimmed; a non-empty string gives its last character, trimmed; any other true
  value cannot be indexed with \<open>-1\<close>, and the call raises.
\<close>

lemma chat_with_agent_messages_not_a_list:
  assumes "start_model cs = Inr agent"
    and "agent (chat_prompt_format (repr cs) pv) = Inr (PDict d)"
    and "map_of d ''messages'' = Some msgs"
  shows "(\<not> truthy msgs \<longrightarrow> chat_with_agent cs pv = Inr (py_strip (repr cs (PDict d))))
    \<and> (\<forall>s. msgs = PStr s \<and> s \<noteq> [] \<longrightarrow> chat_with_agent cs pv = Inr (py_strip [last s]))
    \<and> (truthy msgs \<and> (\<forall>vs. msgs \<noteq> PList vs) \<and> (\<forall>s. msgs \<noteq> PStr s)
          \<longrightarrow> chat_with_agent cs pv = Inl Exception)"
  using assms(3)
  by (cases msgs)
     (auto simp: chat_with_agent_response [OF assms(1,2)] extract_reply_def py_str_def)

text \<open>
  C7, the failing input. The agent answers with a structured response whose last message
  has a list of content blocks as its content. The content is taken as it is,
  \<open>last_msg.strip()\<close> raises \<open>AttributeError\<close>, and \<open>_chat_with_agent\<close> raises
  \<open>Exception\<close>: no reply is extracted, neither the content nor the string form of the
  message, and \<open>generate_reply\<close> answers with the fallback string.
\<close>

theorem content_blocks_raise:
  "message_content (repr block_content_agent)
       (PObj [(''content'', PList [PDict [(''type'', PStr ''text''), (''text'', PStr ''Try Heat'')]])])
     = PList [PDict [(''type'', PStr ''text''), (''text'', PStr ''Try Heat'')]]
   \<and> call_strip (PList [PDict [(''type'', PStr ''text''), (''text'', PStr ''Try Heat'')]])
     = Inl AttributeError
   \<and> chat_with_agent block_content_agent some_prompt_vars = Inl Exception
   \<and> fst (generate_reply block_content_agent (PStr ''hi'') False (init 10))
     = Inr (PStr fallback_reply)"
proof -
  have c: "chat_with_agent block_content_agent pv = Inl Exception" for pv
    by (simp add: chat_with_agent_def block_content_agent_def extract_reply_def dict_get_def)
  have "agent_stage block_content_agent ctx ''hi'' (Some found) \<noteq> Inr answer" for ctx found answer
    by (simp add: agent_stage_def c split: sum.splits)
  then have "fst (generate_reply block_content_agent (PStr ''hi'') False (init 10))
      = Inr (PStr fallback_reply)"
    by (auto simp: generate_reply_valid strip_hi Let_def block_content_agent_def
        split: sum.splits)
  then show ?thesis by (simp add: c dict_get_def)
qed

section \<open>The favourites file\<close>

lemma str_int_27205: "str_int 27205 = ''27205''"
  by (simp add: str_int_def str_nat.simps digit_char_def)

text \<open>
  The add path treats an absent and an unparsable file as the empty list; the delete path
  does so for the absent file only.
\<close>

lemma save_favourites_recovers:
  "save_favourites te favs Absent = (if writable te then save_favourites te favs (Ids []) else Absent)"
  "save_favourites te favs Unparsable =
     (if writable te then save_favourites te favs (Ids []) else Unparsable)"
  by (simp_all add: save_favourites_def)

lemma add_favourite_on_unparsable:
  "add_favourite_run tmdb_finds ''Inception'' Unparsable = (''Added 27205 to favourites.'', Ids [27205])"
  by (simp add: add_favourite_run_def save_favourites_def tmdb_finds_def str_int_27205)

lemma delete_favourite_absent:
  "search_movie_id te name = Some i \<Longrightarrow> i \<noteq> 0 \<Longrightarrow>
   delete_favourite_run te name Absent
     = (''Movie ID '' @ str_int i @ '' not found in favourites.'', Absent)"
  by (simp add: delete_favourite_run_def)

lemma delete_favourite_unparsable:
  "search_movie_id te name = Some i \<Longrightarrow> i \<noteq> 0 \<Longrightarrow>
   delete_favourite_run te name Unparsable
     = (''Error deleting favourite '' @ str_int i @ '': '' @ json_error te, Unparsable)"
  by (simp add: delete_favourite_run_def)

text \<open>
  C8, the failing input. Deleting a favourite while the file holds text that is not JSON
  returns the read error, not the message that the id is not in the favourites.
\<close>

theorem delete_on_unparsable_file_surfaces_read_error:
  "delete_favourite_run tmdb_finds ''Inception'' Unparsable =
     (''Error deleting favourite 27205: Expecting value: line 1 column 1 (char 0)'', Unparsable)
   \<and> fst (delete_favourite_run tmdb_finds ''Inception'' Unparsable)
       \<noteq> ''Movie ID 27205 not found in favourites.''
   \<and> delete_favourite_run tmdb_finds ''Inception'' Absent =
     (''Movie ID 27205 not found in favourites.'', Absent)"
  by (simp add: delete_favourite_run_def tmdb_finds_def str_int_27205)

end
